theory Spec2Isabelle
  imports Complex_Main "HOL-Library.AList" "HOL-Library.Sublist"
begin

section \<open>Inventory management and billing: the program as HOL functions\<close>

text \<open>
  The source is one Python module, \<^verbatim>\<open>fp.py\<close>, with the classes \<^verbatim>\<open>Product\<close>,
  \<^verbatim>\<open>OrderItem\<close>, \<^verbatim>\<open>Sale\<close>, \<^verbatim>\<open>InventoryManager\<close> and \<^verbatim>\<open>BillingSystem\<close>.

  \<^item> \<^verbatim>\<open>Product\<close> objects are shared: the dictionary \<^verbatim>\<open>InventoryManager.products\<close> and
    every \<^verbatim>\<open>OrderItem\<close> hold references to them, and \<^verbatim>\<open>update_product\<close> and \<^verbatim>\<open>checkout\<close>
    mutate them in place. They live in an explicit store (\<open>heap\<close>), a list indexed by
    reference; an object is allocated by appending and never freed.
  \<^item> \<^verbatim>\<open>OrderItem\<close> objects are shared as well: \<^verbatim>\<open>checkout\<close> gives the sale a copy of the
    cart list, which holds the same objects, and when \<^verbatim>\<open>checkout\<close> raises the cart keeps
    them. They live in a second store (\<open>lines\<close>); the cart and the \<open>items\<close> of a sale
    are lists of references into it.
  \<^item> The dictionary keeps insertion order, so it is an association list from product id
    to reference.
  \<^item> A \<^verbatim>\<open>Sale\<close> is never changed after it was built, so it is a plain value.
  \<^item> Quantities are Python integers (\<open>int\<close>, unbounded).
  \<^item> Prices, totals and discounts are Python floats (both the menu and \<^verbatim>\<open>load_data\<close> build
    them with \<^verbatim>\<open>float(...)\<close>): a finite value, an infinity or NaN, see below.
  \<^item> A Python string is a list of code points.
  \<^item> Every \<^verbatim>\<open>print\<close> and every attempt to rewrite one of the two CSV files is an event
    appended to the field \<open>out\<close> of the state. Whether a file write succeeds and what
    \<^verbatim>\<open>datetime.now()\<close> returns are inputs of the operations that use them.
  \<^item> An uncaught Python exception is the value \<open>Inl\<close> of a sum type; the state returned
    with it is the state at the moment of the raise.
\<close>

subsection \<open>Floats\<close>

text \<open>
  A float is NaN, one of the two infinities, or finite. A finite float is modelled by
  the rational it stands for, and an operation on finite operands yields the exact
  result: rounding to 53 bits is the one thing left out (and with it the sign of zero,
  which no comparison sees). Everything else follows IEEE 754 as Python exposes it:
  a result whose magnitude reaches \<open>2^1024 - 2^970\<close> is an infinity, every comparison
  with NaN is false, and arithmetic on infinities and NaN gives infinities and NaN.
  Converting an integer of that magnitude to a float raises \<^verbatim>\<open>OverflowError\<close>, which is
  what \<^verbatim>\<open>float * int\<close> does before it multiplies.
\<close>

datatype pyfloat = Fin rat | PInf | NInf | NaN

datatype pyerror = AttributeError | OverflowError

definition float_overflow :: rat where
  "float_overflow = 2 ^ 1024 - 2 ^ 970"

definition fl :: "rat \<Rightarrow> pyfloat" where
  "fl r = (if float_overflow \<le> r then PInf else if r \<le> - float_overflow then NInf else Fin r)"

fun fneg :: "pyfloat \<Rightarrow> pyfloat" where
  "fneg (Fin a) = Fin (- a)"
| "fneg PInf = NInf"
| "fneg NInf = PInf"
| "fneg NaN = NaN"

fun fadd :: "pyfloat \<Rightarrow> pyfloat \<Rightarrow> pyfloat" where
  "fadd (Fin a) (Fin b) = fl (a + b)"
| "fadd NaN y = NaN"
| "fadd x NaN = NaN"
| "fadd PInf NInf = NaN"
| "fadd NInf PInf = NaN"
| "fadd PInf y = PInf"
| "fadd x PInf = PInf"
| "fadd NInf y = NInf"
| "fadd x NInf = NInf"

definition fsub :: "pyfloat \<Rightarrow> pyfloat \<Rightarrow> pyfloat" where
  "fsub x y = fadd x (fneg y)"

fun fmul :: "pyfloat \<Rightarrow> pyfloat \<Rightarrow> pyfloat" where
  "fmul (Fin a) (Fin b) = fl (a * b)"
| "fmul NaN y = NaN"
| "fmul x NaN = NaN"
| "fmul (Fin a) PInf = (if a = 0 then NaN else if 0 < a then PInf else NInf)"
| "fmul (Fin a) NInf = (if a = 0 then NaN else if 0 < a then NInf else PInf)"
| "fmul PInf (Fin b) = (if b = 0 then NaN else if 0 < b then PInf else NInf)"
| "fmul NInf (Fin b) = (if b = 0 then NaN else if 0 < b then NInf else PInf)"
| "fmul PInf PInf = PInf"
| "fmul NInf NInf = PInf"
| "fmul PInf NInf = NInf"
| "fmul NInf PInf = NInf"

text \<open>\<^verbatim>\<open>value / 100\<close>, the only division of the modelled methods.\<close>

fun fdiv100 :: "pyfloat \<Rightarrow> pyfloat" where
  "fdiv100 (Fin a) = Fin (a / 100)"
| "fdiv100 PInf = PInf"
| "fdiv100 NInf = NInf"
| "fdiv100 NaN = NaN"

text \<open>\<^verbatim>\<open>x < y\<close> and \<^verbatim>\<open>x <= y\<close>; \<^verbatim>\<open>x > y\<close> is \<^verbatim>\<open>y < x\<close>.\<close>

fun flt :: "pyfloat \<Rightarrow> pyfloat \<Rightarrow> bool" where
  "flt (Fin a) (Fin b) = (a < b)"
| "flt NaN y = False"
| "flt x NaN = False"
| "flt x NInf = False"
| "flt NInf y = True"
| "flt PInf y = False"
| "flt x PInf = True"

fun fle :: "pyfloat \<Rightarrow> pyfloat \<Rightarrow> bool" where
  "fle (Fin a) (Fin b) = (a \<le> b)"
| "fle NaN y = False"
| "fle x NaN = False"
| "fle NInf y = True"
| "fle x NInf = False"
| "fle x PInf = True"
| "fle PInf y = False"

text \<open>\<^verbatim>\<open>sum(...)\<close> starts from 0 and adds from left to right.\<close>

definition fsum :: "pyfloat list \<Rightarrow> pyfloat" where
  "fsum xs = foldl fadd (Fin 0) xs"

definition to_float :: "int \<Rightarrow> pyerror + pyfloat" where
  "to_float n =
     (if float_overflow \<le> \<bar>of_int n\<bar> then Inl OverflowError else Inr (Fin (of_int n)))"

text \<open>\<^verbatim>\<open>price * quantity\<close> with a float price and an integer quantity.\<close>

definition mul_float_int :: "pyfloat \<Rightarrow> int \<Rightarrow> pyerror + pyfloat" where
  "mul_float_int x n = (case to_float n of Inl e \<Rightarrow> Inl e | Inr y \<Rightarrow> Inr (fmul x y))"

subsection \<open>Data\<close>

type_synonym ref = nat

type_synonym str = "nat list"

text \<open>A string literal of the source, as code points.\<close>

definition ascii :: "string \<Rightarrow> str" where
  "ascii cs = map of_char cs"

record Product =
  product_id :: str
  name :: str
  price :: pyfloat
  stock_quantity :: int

record OrderItem =
  product :: ref
  quantity :: int
  total :: pyfloat

record Sale =
  items :: "ref list"
  total_amount :: pyfloat
  datetime :: nat
  discount :: pyfloat
  final_amount :: pyfloat

text \<open>
  One constructor for each \<^verbatim>\<open>print\<close> statement of the modelled methods, with the
  interpolated value as argument:
  \<^item> \<open>ProductIdExists\<close>: "Product ID already exists!"
  \<^item> \<open>PriceMustBePositive\<close>: "Price must be greater than zero!"
  \<^item> \<open>StockCannotBeNegative\<close>: "Stock quantity cannot be negative!"
  \<^item> \<open>ProductAdded\<close>, \<open>ProductUpdated\<close>, \<open>ProductDeleted\<close>: "Product ... successfully!"
  \<^item> \<open>ProductNotFound\<close>: "Product not found!"
  \<^item> \<open>RemovedItem\<close>: "Removed item from cart."
  \<^item> \<open>ReducedItem\<close>: "Reduced item quantity in cart."
  \<^item> \<open>ItemNotFound\<close>: "Item not found in cart!"
  \<^item> \<open>CartIsEmpty\<close>: "Cart is empty!"
  \<^item> \<open>DiscountPercentageRange\<close>: "Discount percentage must be between 0 and 100!"
  \<^item> \<open>FixedDiscountRange t\<close>: "Fixed discount must be between 0 and t!"
  \<^item> \<open>InvalidDiscountType\<close>: "Invalid discount type! Use 'percentage' or 'fixed'."
  \<^item> \<open>DiscountApplied d\<close>: "Discount applied: d"
  \<^item> \<open>InvalidDiscountAmount\<close>: "Invalid discount amount!"
  \<^item> \<open>CheckoutCompleted\<close>: "Checkout completed successfully"
  \<^item> \<open>CouldNotFindProduct\<close>: "could not find that product. Double-check the ID."
  \<^item> \<open>QuantityMustBePositive\<close>: "Quantity must be a positive whole number!"
  \<^item> \<open>InsufficientStock n\<close>: "Insufficient stock, only n left."
  \<^item> \<open>UpdatedQuantity\<close>: "Updated quantity in cart"
  \<^item> \<open>AddedToCart\<close>: "Added to cart"
\<close>

datatype message =
    ProductIdExists | PriceMustBePositive | StockCannotBeNegative
  | ProductAdded | ProductUpdated | ProductDeleted | ProductNotFound
  | RemovedItem | ReducedItem | ItemNotFound
  | CartIsEmpty | DiscountPercentageRange | FixedDiscountRange pyfloat
  | InvalidDiscountType | DiscountApplied pyfloat
  | InvalidDiscountAmount | CheckoutCompleted
  | CouldNotFindProduct | QuantityMustBePositive | InsufficientStock int
  | UpdatedQuantity | AddedToCart

datatype csv_file = DataFile | SalesFile

datatype event = Print message | WriteFile csv_file bool

record state =
  heap :: "Product list"
  lines :: "OrderItem list"
  products :: "(str \<times> ref) list"
  cart :: "ref list"
  sales :: "Sale list"
  out :: "event list"

definition init :: state where
  "init = \<lparr>heap = [], lines = [], products = [], cart = [], sales = [], out = []\<rparr>"

definition say :: "message \<Rightarrow> state \<Rightarrow> state" where
  "say m s = s\<lparr>out := out s @ [Print m]\<rparr>"

text \<open>The \<^verbatim>\<open>OrderItem\<close> objects of the cart, in cart order.\<close>

definition cart_items :: "state \<Rightarrow> OrderItem list" where
  "cart_items s = map ((!) (lines s)) (cart s)"

subsection \<open>InventoryManager\<close>

text \<open>
  \<^verbatim>\<open>save_data\<close> and \<^verbatim>\<open>save_sales\<close> rewrite a file from the state in memory and return
  whether that worked; the argument \<open>ok\<close> is the outcome of the write.
\<close>

definition save_data :: "bool \<Rightarrow> state \<Rightarrow> bool \<times> state" where
  "save_data ok s = (ok, s\<lparr>out := out s @ [WriteFile DataFile ok]\<rparr>)"

definition save_sales :: "bool \<Rightarrow> state \<Rightarrow> bool \<times> state" where
  "save_sales ok s = (ok, s\<lparr>out := out s @ [WriteFile SalesFile ok]\<rparr>)"

definition get_product :: "state \<Rightarrow> str \<Rightarrow> ref option" where
  "get_product s pid = map_of (products s) pid"

definition add_product :: "bool \<Rightarrow> str \<Rightarrow> str \<Rightarrow> pyfloat \<Rightarrow> int \<Rightarrow> state \<Rightarrow> bool \<times> state" where
  "add_product ok pid nm pr qty s =
     (if map_of (products s) pid \<noteq> None then (False, say ProductIdExists s)
      else if fle pr (Fin 0) then (False, say PriceMustBePositive s)
      else if qty < 0 then (False, say StockCannotBeNegative s)
      else
        let s1 = s\<lparr>heap := heap s @ [\<lparr>product_id = pid, name = nm, price = pr, stock_quantity = qty\<rparr>],
                   products := AList.update pid (length (heap s)) (products s)\<rparr>;
            (saved, s2) = save_data ok s1
        in if saved then (True, say ProductAdded s2) else (False, s2))"

definition set_name :: "ref \<Rightarrow> str \<Rightarrow> state \<Rightarrow> state" where
  "set_name a nm s = s\<lparr>heap := (heap s)[a := (heap s ! a)\<lparr>name := nm\<rparr>]\<rparr>"

definition set_price :: "ref \<Rightarrow> pyfloat \<Rightarrow> state \<Rightarrow> state" where
  "set_price a pr s = s\<lparr>heap := (heap s)[a := (heap s ! a)\<lparr>price := pr\<rparr>]\<rparr>"

definition set_stock :: "ref \<Rightarrow> int \<Rightarrow> state \<Rightarrow> state" where
  "set_stock a qty s = s\<lparr>heap := (heap s)[a := (heap s ! a)\<lparr>stock_quantity := qty\<rparr>]\<rparr>"

text \<open>
  \<^verbatim>\<open>update_product\<close> assigns each supplied field as it goes: the name before the price is
  checked, the price before the stock quantity is checked.
\<close>

definition update_product ::
  "bool \<Rightarrow> str \<Rightarrow> str option \<Rightarrow> pyfloat option \<Rightarrow> int option \<Rightarrow> state \<Rightarrow> bool \<times> state" where
  "update_product ok pid nm pr qty s =
     (case map_of (products s) pid of
        None \<Rightarrow> (False, say ProductNotFound s)
      | Some a \<Rightarrow>
          let s1 = (case nm of None \<Rightarrow> s | Some n \<Rightarrow> set_name a n s) in
          if (case pr of None \<Rightarrow> False | Some p \<Rightarrow> fle p (Fin 0))
          then (False, say PriceMustBePositive s1)
          else
            let s2 = (case pr of None \<Rightarrow> s1 | Some p \<Rightarrow> set_price a p s1) in
            if (case qty of None \<Rightarrow> False | Some q \<Rightarrow> q < 0)
            then (False, say StockCannotBeNegative s2)
            else
              let s3 = (case qty of None \<Rightarrow> s2 | Some q \<Rightarrow> set_stock a q s2);
                  (saved, s4) = save_data ok s3
              in if saved then (True, say ProductUpdated s4) else (False, s4))"

definition delete_product :: "bool \<Rightarrow> str \<Rightarrow> state \<Rightarrow> bool \<times> state" where
  "delete_product ok pid s =
     (if map_of (products s) pid = None then (False, say ProductNotFound s)
      else
        let s1 = s\<lparr>products := AList.delete pid (products s)\<rparr>;
            (saved, s2) = save_data ok s1
        in if saved then (True, say ProductDeleted s2) else (False, s2))"



subsection \<open>BillingSystem\<close>

text \<open>
  \<^verbatim>\<open>add_to_cart\<close> and \<^verbatim>\<open>remove_from_cart\<close> both walk the cart and act on the first line
  whose product has the given id. \<open>find_line\<close> is that walk: the position of the first
  such line in the cart, or \<open>None\<close> when the loop runs to its end.
\<close>

fun find_line :: "Product list \<Rightarrow> OrderItem list \<Rightarrow> str \<Rightarrow> ref list \<Rightarrow> nat option" where
  "find_line h ls pid [] = None"
| "find_line h ls pid (r # rest) =
     (if product_id (h ! product (ls ! r)) = pid then Some 0
      else map_option Suc (find_line h ls pid rest))"

text \<open>
  \<^verbatim>\<open>remove_from_cart\<close>. In the reducing branch the quantity is assigned first; the
  multiplication for the new total may then raise, leaving the old total in place.
\<close>

definition remove_from_cart :: "str \<Rightarrow> int option \<Rightarrow> state \<Rightarrow> (pyerror + bool) \<times> state" where
  "remove_from_cart pid q s =
     (case find_line (heap s) (lines s) pid (cart s) of
        None \<Rightarrow> (Inr False, say ItemNotFound s)
      | Some i \<Rightarrow>
          let r = cart s ! i; item = lines s ! r in
          if (case q of None \<Rightarrow> True | Some n \<Rightarrow> n \<ge> quantity item)
          then (Inr True, say RemovedItem (s\<lparr>cart := take i (cart s) @ drop (Suc i) (cart s)\<rparr>))
          else
            let n' = quantity item - the q;
                s1 = s\<lparr>lines := (lines s)[r := item\<lparr>quantity := n'\<rparr>]\<rparr>
            in
              (case mul_float_int (price (heap s ! product item)) n' of
                 Inl e \<Rightarrow> (Inl e, s1)
               | Inr t \<Rightarrow>
                   (Inr True,
                    say ReducedItem
                      (s\<lparr>lines := (lines s)[r := item\<lparr>quantity := n', total := t\<rparr>]\<rparr>))))"

definition apply_discount :: "str \<Rightarrow> pyfloat \<Rightarrow> state \<Rightarrow> pyfloat \<times> state" where
  "apply_discount discount_type v s =
     (if cart s = [] then (Fin 0, say CartIsEmpty s)
      else
        let t = fsum (map total (cart_items s)) in
        if discount_type = ascii ''percentage'' then
          (if flt v (Fin 0) \<or> flt (Fin 100) v then (Fin 0, say DiscountPercentageRange s)
           else (fmul t (fdiv100 v), say (DiscountApplied (fmul t (fdiv100 v))) s))
        else if discount_type = ascii ''fixed'' then
          (if flt v (Fin 0) \<or> flt t v then (Fin 0, say (FixedDiscountRange t) s)
           else (v, say (DiscountApplied v) s))
        else (Fin 0, say InvalidDiscountType s))"

text \<open>
  The stock loop of \<^verbatim>\<open>checkout\<close>, over the cart's objects. \<^verbatim>\<open>get_product\<close> returns
  \<^verbatim>\<open>None\<close> for an id that is no longer in the catalog, and the assignment to
  \<^verbatim>\<open>product.stock_quantity\<close> then raises \<^verbatim>\<open>AttributeError\<close>; the store is returned as it
  is at that moment.

  The discount of \<^verbatim>\<open>checkout\<close> is a float; the default \<^verbatim>\<open>0\<close> of the source compares and
  subtracts as the float \<open>Fin 0\<close>. The arguments \<open>now\<close>, \<open>ok_sales\<close> and \<open>ok_data\<close> are
  the value of \<^verbatim>\<open>datetime.now()\<close> and the outcomes of the two file writes.
\<close>

fun decrement_stock ::
  "(str \<times> ref) list \<Rightarrow> OrderItem list \<Rightarrow> Product list \<Rightarrow> pyerror option \<times> Product list" where
  "decrement_stock ps [] h = (None, h)"
| "decrement_stock ps (item # rest) h =
     (case map_of ps (product_id (h ! product item)) of
        None \<Rightarrow> (Some AttributeError, h)
      | Some a \<Rightarrow>
          decrement_stock ps rest
            (h[a := (h ! a)\<lparr>stock_quantity := stock_quantity (h ! a) - quantity item\<rparr>]))"

definition checkout ::
  "nat \<Rightarrow> bool \<Rightarrow> bool \<Rightarrow> pyfloat \<Rightarrow> state \<Rightarrow> (pyerror + Sale option) \<times> state" where
  "checkout now ok_sales ok_data d s =
     (if cart s = [] then (Inr None, say CartIsEmpty s)
      else
        let t = fsum (map total (cart_items s)) in
        if flt d (Fin 0) \<or> flt t d then (Inr None, say InvalidDiscountAmount s)
        else
          let sale = \<lparr>items = cart s, total_amount = t, datetime = now,
                      discount = d, final_amount = fsub t d\<rparr>;
              s1 = s\<lparr>sales := sales s @ [sale]\<rparr>;
              s2 = snd (save_sales ok_sales s1)
          in
            (case decrement_stock (products s2) (cart_items s2) (heap s2) of
               (Some e, h) \<Rightarrow> (Inl e, s2\<lparr>heap := h\<rparr>)
             | (None, h) \<Rightarrow>
                 let s3 = snd (save_data ok_data (s2\<lparr>heap := h\<rparr>));
                     s4 = s3\<lparr>cart := []\<rparr>
                 in (Inr (Some sale), say CheckoutCompleted s4)))"

text \<open>
  \<^verbatim>\<open>add_to_cart\<close>. When the product has a line, the quantity is assigned first and the
  multiplication for the new total may then raise. When it has none, the constructor of
  \<^verbatim>\<open>OrderItem\<close> multiplies before anything is appended, so a raise leaves no trace.
\<close>

definition add_to_cart :: "str \<Rightarrow> int \<Rightarrow> state \<Rightarrow> (pyerror + bool) \<times> state" where
  "add_to_cart pid q s =
     (case get_product s pid of
        None \<Rightarrow> (Inr False, say CouldNotFindProduct s)
      | Some a \<Rightarrow>
          if q \<le> 0 then (Inr False, say QuantityMustBePositive s)
          else if stock_quantity (heap s ! a) < q
          then (Inr False, say (InsufficientStock (stock_quantity (heap s ! a))) s)
          else
            (case find_line (heap s) (lines s) pid (cart s) of
               Some i \<Rightarrow>
                 let r = cart s ! i; item = lines s ! r; n' = quantity item + q;
                     s1 = s\<lparr>lines := (lines s)[r := item\<lparr>quantity := n'\<rparr>]\<rparr>
                 in
                   (case mul_float_int (price (heap s ! product item)) n' of
                      Inl e \<Rightarrow> (Inl e, s1)
                    | Inr t \<Rightarrow>
                        (Inr True,
                         say UpdatedQuantity
                           (s\<lparr>lines := (lines s)[r := item\<lparr>quantity := n', total := t\<rparr>]\<rparr>)))
             | None \<Rightarrow>
                 (case mul_float_int (price (heap s ! a)) q of
                    Inl e \<Rightarrow> (Inl e, s)
                  | Inr t \<Rightarrow>
                      (Inr True,
                       say AddedToCart
                         (s\<lparr>lines := lines s @ [\<lparr>product = a, quantity = q, total = t\<rparr>],
                            cart := cart s @ [length (lines s)]\<rparr>)))))"

subsection \<open>The library function \<^verbatim>\<open>str.lower\<close>\<close>







subsection \<open>States the program can be in\<close>

text \<open>
  What holds of every state the operations build: the keys of the dictionary are unique,
  the object stored under a key exists and carries that key as its \<open>product_id\<close>
  (\<^verbatim>\<open>add_product\<close> and \<^verbatim>\<open>load_data\<close> store a product under its own id, and no method
  assigns \<open>product_id\<close>), every cart entry is an existing \<^verbatim>\<open>OrderItem\<close> whose product
  exists, and the cart has at most one line for a product id (\<^verbatim>\<open>add_to_cart\<close> adds to
  the existing line). The product of a cart line need not be in the dictionary any
  more: \<^verbatim>\<open>delete_product\<close> does not look at the cart.
\<close>

definition consistent :: "state \<Rightarrow> bool" where
  "consistent s \<longleftrightarrow>
     distinct (map fst (products s))
   \<and> list_all (\<lambda>(k, a). a < length (heap s) \<and> product_id (heap s ! a) = k) (products s)
   \<and> list_all (\<lambda>r. r < length (lines s)) (cart s)
   \<and> list_all (\<lambda>item. product item < length (heap s)) (cart_items s)
   \<and> distinct (map (\<lambda>item. product_id (heap s ! product item)) (cart_items s))"

subsection \<open>Matching without regard to case, in the words of the specification\<close>







subsection \<open>Example states\<close>

text \<open>
  The scenario of the specification: one product \<open>P1\<close> ("Widget", price 9.99, ten in
  stock) is added to an empty catalog (\<open>widget_shop\<close>), then three units of it are put
  into the cart (\<open>widget_cart\<close>). In \<open>orphan_cart\<close> the product has then been deleted
  from the catalog while its line is still in the cart. In \<open>nan_cart\<close> the one
  product was entered with the price "nan", which \<^verbatim>\<open>float\<close> reads as NaN and
  \<^verbatim>\<open>add_product\<close> accepts, and one unit of it is in the cart. \<open>odos_shop\<close> has one product
  \<open>G1\<close> whose name is the Greek word for street in capitals, omicron delta omicron
  sigma.
\<close>

definition widget_shop :: state where
  "widget_shop = snd (add_product True (ascii ''P1'') (ascii ''Widget'') (Fin (999 / 100)) 10 init)"

definition widget_cart :: state where
  "widget_cart = snd (add_to_cart (ascii ''P1'') 3 widget_shop)"

definition widget_sale :: Sale where
  "widget_sale = \<lparr>items = [0], total_amount = Fin (2997 / 100), datetime = 0,
     discount = Fin 0, final_amount = Fin (2997 / 100)\<rparr>"

definition orphan_cart :: state where
  "orphan_cart = snd (delete_product True (ascii ''P1'') widget_cart)"



section \<open>Properties\<close>

subsection \<open>Floats and the example states, evaluated\<close>

lemmas float_eval = mul_float_int_def to_float_def fl_def float_overflow_def fsum_def fsub_def

lemma fle_not_flt: "fle a b \<Longrightarrow> \<not> flt b a"
  by (cases a; cases b) auto

lemma flt_not_fle: "flt a b \<Longrightarrow> \<not> fle b a"
  by (cases a; cases b) auto

lemma to_float_in_range:
  "\<bar>of_int n\<bar> < float_overflow \<Longrightarrow> to_float n = Inr (Fin (of_int n))"
  by (simp add: to_float_def)

lemma widget_shop_eq:
  "widget_shop = \<lparr>heap = [\<lparr>product_id = ascii ''P1'', name = ascii ''Widget'',
                            price = Fin (999 / 100), stock_quantity = 10\<rparr>],
     lines = [], products = [(ascii ''P1'', 0)], cart = [], sales = [],
     out = [WriteFile DataFile True, Print ProductAdded]\<rparr>"
  by (simp add: widget_shop_def add_product_def init_def save_data_def say_def)

lemma widget_cart_eq:
  "widget_cart = widget_shop\<lparr>lines := [\<lparr>product = 0, quantity = 3, total = Fin (2997 / 100)\<rparr>],
     cart := [0], out := out widget_shop @ [Print AddedToCart]\<rparr>"
  by (simp add: widget_cart_def widget_shop_eq add_to_cart_def get_product_def say_def float_eval)

lemma orphan_cart_eq:
  "orphan_cart = widget_cart\<lparr>products := [],
     out := out widget_cart @ [WriteFile DataFile True, Print ProductDeleted]\<rparr>"
  by (simp add: orphan_cart_def widget_cart_eq widget_shop_eq delete_product_def save_data_def
        say_def)


subsection \<open>Every operation keeps the state consistent\<close>

text \<open>
  The initial state is consistent, and each public operation, whatever it returns (an
  uncaught exception included), leaves a consistent state consistent. So every theorem
  below that assumes a consistent state speaks about all states the program reaches.
\<close>

lemma consistent_init: "consistent init"
  by (simp add: consistent_def init_def cart_items_def)

lemma consistent_out [simp]: "consistent (s\<lparr>out := x\<rparr>) = consistent s"
  by (simp add: consistent_def cart_items_def)

lemma consistent_sales [simp]: "consistent (s\<lparr>sales := x\<rparr>) = consistent s"
  by (simp add: consistent_def cart_items_def)

lemma consistent_say [simp]: "consistent (say m s) = consistent s"
  by (simp add: say_def)

lemma consistent_same_ids:
  assumes "consistent s" and "length h = length (heap s)"
    and "\<And>r. product_id (h ! r) = product_id (heap s ! r)"
  shows "consistent (s\<lparr>heap := h\<rparr>)"
  using assms by (simp add: consistent_def cart_items_def)

lemma consistent_same_products:
  assumes "consistent s" and "length ls = length (lines s)"
    and "\<And>r. product (ls ! r) = product (lines s ! r)"
  shows "consistent (s\<lparr>lines := ls\<rparr>)"
  using assms by (simp add: consistent_def cart_items_def list_all_iff comp_def)

lemma product_id_list_update:
  "product_id x = product_id (h ! a) \<Longrightarrow> product_id (h[a := x] ! r) = product_id (h ! r)"
  by (cases "r = a"; cases "a < length h") (auto simp: not_less list_update_beyond)

lemma product_list_update:
  "product x = product (ls ! a) \<Longrightarrow> product (ls[a := x] ! r) = product (ls ! r)"
  by (cases "r = a"; cases "a < length ls") (auto simp: not_less list_update_beyond)

lemma consistent_set_name: "consistent s \<Longrightarrow> consistent (set_name a nm s)"
  unfolding set_name_def by (rule consistent_same_ids) (simp_all add: product_id_list_update)

lemma consistent_set_price: "consistent s \<Longrightarrow> consistent (set_price a pr s)"
  unfolding set_price_def by (rule consistent_same_ids) (simp_all add: product_id_list_update)

lemma consistent_set_stock: "consistent s \<Longrightarrow> consistent (set_stock a qty s)"
  unfolding set_stock_def by (rule consistent_same_ids) (simp_all add: product_id_list_update)

lemma update_fresh: "map_of ps k = None \<Longrightarrow> AList.update k v ps = ps @ [(k, v)]"
  by (induction ps) (auto split: if_splits)

lemma add_product_consistent:
  assumes "consistent s"
  shows "consistent (snd (add_product ok pid nm pr qty s))"
proof (cases "map_of (products s) pid = None \<and> \<not> fle pr (Fin 0) \<and> 0 \<le> qty")
  case False
  then show ?thesis using assms by (auto simp: add_product_def)
next
  case True
  let ?p = "\<lparr>product_id = pid, name = nm, price = pr, stock_quantity = qty\<rparr>"
  let ?s1 = "s\<lparr>heap := heap s @ [?p], products := products s @ [(pid, length (heap s))]\<rparr>"
  let ?pid = "\<lambda>h it. product_id (h ! product it)"
  have fresh: "pid \<notin> fst ` set (products s)"
    using True by (simp add: map_of_eq_None_iff)
  have ps: "\<forall>(k, a) \<in> set (products s). a < length (heap s) \<and> product_id (heap s ! a) = k"
    and rs: "list_all (\<lambda>r. r < length (lines s)) (cart s)"
    and refs: "\<forall>it \<in> set (cart_items s). product it < length (heap s)"
    and d1: "distinct (map fst (products s))"
    and d2: "distinct (map (?pid (heap s)) (cart_items s))"
    using assms by (auto simp: consistent_def list_all_iff)
  have same: "map (?pid (heap s @ [?p])) (cart_items s) = map (?pid (heap s)) (cart_items s)"
    using refs by (simp add: nth_append)
  have c1: "distinct (map fst (products s @ [(pid, length (heap s))]))"
    using fresh d1 by auto
  have c2: "list_all (\<lambda>(k, a). a < length (heap s @ [?p]) \<and> product_id ((heap s @ [?p]) ! a) = k)
      (products s @ [(pid, length (heap s))])"
    using ps by (auto simp: list_all_iff nth_append)
  have c3: "list_all (\<lambda>it. product it < length (heap s @ [?p])) (cart_items s)"
    using refs by (auto simp: list_all_iff)
  have c4: "distinct (map (?pid (heap s @ [?p])) (cart_items s))"
    using d2 by (simp only: same)
  have items: "cart_items ?s1 = cart_items s"
    by (simp add: cart_items_def)
  have "consistent ?s1"
    unfolding consistent_def items using c1 c2 c3 c4 rs by simp
  then show ?thesis
    using True
    by (cases ok) (simp_all add: add_product_def update_fresh save_data_def say_def Let_def)
qed

lemma update_product_consistent:
  assumes "consistent s"
  shows "consistent (snd (update_product ok pid nm pr qty s))"
  using assms
  by (auto simp: update_product_def save_data_def Let_def
        consistent_set_name consistent_set_price consistent_set_stock
        split: option.splits)

lemma delete_product_consistent:
  assumes "consistent s"
  shows "consistent (snd (delete_product ok pid s))"
proof -
  have "consistent (s\<lparr>products := AList.delete pid (products s)\<rparr>)"
    using assms
    by (auto simp: consistent_def cart_items_def list_all_iff AList.delete_eq distinct_map_filter)
  then show ?thesis
    using assms by (auto simp: delete_product_def save_data_def Let_def)
qed

lemma find_line_Some:
  "find_line h ls pid c = Some i \<Longrightarrow>
     i < length c \<and> product_id (h ! product (ls ! (c ! i))) = pid
   \<and> (\<forall>j < i. product_id (h ! product (ls ! (c ! j))) \<noteq> pid)"
proof (induction c arbitrary: i)
  case Nil
  then show ?case by simp
next
  case (Cons r rest)
  show ?case
  proof (cases "product_id (h ! product (ls ! r)) = pid")
    case True
    then show ?thesis using Cons.prems by simp
  next
    case False
    then obtain i' where i': "find_line h ls pid rest = Some i'" and i: "i = Suc i'"
      using Cons.prems by auto
    from Cons.IH [OF i'] False show ?thesis
      unfolding i by (auto simp: less_Suc_eq_0_disj)
  qed
qed

lemma find_line_None:
  "find_line h ls pid c = None \<Longrightarrow> \<forall>r \<in> set c. product_id (h ! product (ls ! r)) \<noteq> pid"
  by (induction c) (auto split: if_splits)

lemma find_line_unique:
  assumes "distinct (map (\<lambda>r. product_id (h ! product (ls ! r))) c)"
    and "i < length c" and "product_id (h ! product (ls ! (c ! i))) = pid"
  shows "find_line h ls pid c = Some i"
proof (cases "find_line h ls pid c")
  case None
  from find_line_None [OF None] assms(2,3) show ?thesis
    using nth_mem by blast
next
  case (Some j)
  from find_line_Some [OF Some] have j: "j < length c"
    and jid: "product_id (h ! product (ls ! (c ! j))) = pid" by simp_all
  let ?ids = "map (\<lambda>r. product_id (h ! product (ls ! r))) c"
  have "?ids ! i = ?ids ! j" using assms(2,3) j jid by simp
  then have "i = j"
    using assms(1,2) j by (simp add: nth_eq_iff_index_eq del: nth_map)
  with Some show ?thesis by simp
qed

lemma add_to_cart_consistent:
  assumes "consistent s"
  shows "consistent (snd (add_to_cart pid q s))"
proof (cases "get_product s pid")
  case None
  then show ?thesis using assms by (simp add: add_to_cart_def)
next
  case (Some a)
  then have "(pid, a) \<in> set (products s)"
    by (auto simp: get_product_def dest: map_of_SomeD)
  then have a: "a < length (heap s)" "product_id (heap s ! a) = pid"
    using assms by (auto simp: consistent_def list_all_iff)
  show ?thesis
  proof (cases "find_line (heap s) (lines s) pid (cart s)")
    case (Some i)
    have "consistent (s\<lparr>lines := (lines s)[r := (lines s ! r)\<lparr>quantity := n\<rparr>]\<rparr>)" for r n
      using assms by (rule consistent_same_products) (simp_all add: product_list_update)
    moreover
    have "consistent (s\<lparr>lines := (lines s)[r := (lines s ! r)\<lparr>quantity := n, total := t\<rparr>]\<rparr>)"
      for r n t
      using assms by (rule consistent_same_products) (simp_all add: product_list_update)
    ultimately show ?thesis
      using assms Some \<open>get_product s pid = Some a\<close>
      by (simp add: add_to_cart_def Let_def split: sum.splits)
  next
    case None
    let ?new = "\<lparr>product = a, quantity = q, total = t\<rparr>"
    have fresh: "\<forall>r \<in> set (cart s). product_id (heap s ! product (lines s ! r)) \<noteq> pid"
      using None by (rule find_line_None)
    have rs: "\<forall>r \<in> set (cart s). r < length (lines s)"
      using assms by (auto simp: consistent_def list_all_iff)
    have "consistent (s\<lparr>lines := lines s @ [\<lparr>product = a, quantity = q, total = t\<rparr>],
                        cart := cart s @ [length (lines s)]\<rparr>)" for t
    proof -
      have items: "map ((!) (lines s @ [\<lparr>product = a, quantity = q, total = t\<rparr>])) (cart s)
          = map ((!) (lines s)) (cart s)"
        using rs by (simp add: nth_append)
      show ?thesis
        using assms a fresh rs
        unfolding consistent_def cart_items_def
        by (simp add: items) (auto simp: list_all_iff)
    qed
    then show ?thesis
      using assms None \<open>get_product s pid = Some a\<close>
      by (simp add: add_to_cart_def Let_def split: sum.splits)
  qed
qed

lemma remove_from_cart_consistent:
  assumes "consistent s"
  shows "consistent (snd (remove_from_cart pid q s))"
proof (cases "find_line (heap s) (lines s) pid (cart s)")
  case None
  then show ?thesis using assms by (simp add: remove_from_cart_def)
next
  case (Some i)
  let ?c = "take i (cart s) @ drop (Suc i) (cart s)"
  have i: "i < length (cart s)" using find_line_Some [OF Some] by simp
  have c: "cart s = take i (cart s) @ cart s ! i # drop (Suc i) (cart s)"
    using i by (rule id_take_nth_drop)
  have "consistent (s\<lparr>cart := take i (cart s) @ cart s ! i # drop (Suc i) (cart s)\<rparr>)"
    using assms c by simp
  then have rem: "consistent (s\<lparr>cart := ?c\<rparr>)"
    unfolding consistent_def cart_items_def by auto
  have "consistent (s\<lparr>lines := (lines s)[r := (lines s ! r)\<lparr>quantity := n\<rparr>]\<rparr>)" for r n
    using assms by (rule consistent_same_products) (simp_all add: product_list_update)
  moreover
  have "consistent (s\<lparr>lines := (lines s)[r := (lines s ! r)\<lparr>quantity := n, total := t\<rparr>]\<rparr>)"
    for r n t
    using assms by (rule consistent_same_products) (simp_all add: product_list_update)
  ultimately show ?thesis
    using Some rem by (simp add: remove_from_cart_def Let_def split: sum.splits)
qed

lemma apply_discount_consistent:
  "consistent s \<Longrightarrow> consistent (snd (apply_discount k v s))"
  by (simp add: apply_discount_def Let_def)

lemma decrement_stock_ids:
  "length (snd (decrement_stock ps its h)) = length h
   \<and> product_id (snd (decrement_stock ps its h) ! r) = product_id (h ! r)"
proof (induction its arbitrary: h)
  case Nil
  then show ?case by simp
next
  case (Cons it its)
  show ?case
  proof (cases "map_of ps (product_id (h ! product it))")
    case None
    then show ?thesis by simp
  next
    case (Some a)
    then show ?thesis
      using Cons.IH [of "h[a := (h ! a)\<lparr>stock_quantity := stock_quantity (h ! a) - quantity it\<rparr>]"]
      by (simp add: product_id_list_update)
  qed
qed

lemma checkout_consistent:
  assumes "consistent s"
  shows "consistent (snd (checkout now ok_sales ok_data d s))"
proof -
  obtain e h where run: "decrement_stock (products s) (cart_items s) (heap s) = (e, h)"
    by (cases "decrement_stock (products s) (cart_items s) (heap s)") auto
  have "length h = length (heap s)" and "\<And>r. product_id (h ! r) = product_id (heap s ! r)"
    using decrement_stock_ids [of "products s" "cart_items s" "heap s"] run by simp_all
  then have h: "consistent (s\<lparr>heap := h\<rparr>)"
    using assms by (intro consistent_same_ids) simp_all
  then have h': "consistent (s\<lparr>heap := h, cart := []\<rparr>)"
    by (simp add: consistent_def cart_items_def)
  show ?thesis
  proof (cases "cart s = [] \<or> flt d (Fin 0) \<or> flt (fsum (map total (cart_items s))) d")
    case True
    then show ?thesis using assms by (auto simp: checkout_def Let_def)
  next
    case False
    then show ?thesis
      using run h h'
      by (cases e)
        (simp_all add: checkout_def save_sales_def save_data_def say_def Let_def
           consistent_def cart_items_def)
  qed
qed

subsection \<open>The stock loop of checkout\<close>

text \<open>
  If the loop runs to its end, every object keeps its fields except the stock, and the
  stock of the object at \<open>a\<close> falls by the quantities of all cart lines whose product id
  the catalog maps to \<open>a\<close>. The loop raises exactly when some line's id is missing.
\<close>

lemma decrement_stock_effect:
  assumes "decrement_stock ps its h = (None, h')"
    and "\<forall>(k, a) \<in> set ps. a < length h"
    and "\<forall>it \<in> set its. product it < length h"
  shows "length h' = length h \<and>
     (\<forall>a < length h. h' ! a =
        (h ! a)\<lparr>stock_quantity := stock_quantity (h ! a)
           - sum_list (map quantity
               (filter (\<lambda>it. map_of ps (product_id (h ! product it)) = Some a) its))\<rparr>)"
  using assms
proof (induction its arbitrary: h)
  case Nil
  then show ?case by simp
next
  case (Cons it its)
  from Cons.prems(1) obtain a0 where a0: "map_of ps (product_id (h ! product it)) = Some a0"
    by (auto split: option.splits)
  define h1 where "h1 = h[a0 := (h ! a0)\<lparr>stock_quantity := stock_quantity (h ! a0) - quantity it\<rparr>]"
  have run: "decrement_stock ps its h1 = (None, h')"
    using Cons.prems(1) a0 by (simp add: h1_def)
  have len: "length h1 = length h" by (simp add: h1_def)
  have a0_lt: "a0 < length h"
    using a0 Cons.prems(2) by (auto dest: map_of_SomeD)
  have ids: "product_id (h1 ! r) = product_id (h ! r)" for r
    by (cases "r = a0") (simp_all add: h1_def a0_lt)
  have ih: "length h' = length h1 \<and>
     (\<forall>a < length h1. h' ! a =
        (h1 ! a)\<lparr>stock_quantity := stock_quantity (h1 ! a)
           - sum_list (map quantity
               (filter (\<lambda>it. map_of ps (product_id (h1 ! product it)) = Some a) its))\<rparr>)"
    using Cons.IH [OF run] Cons.prems(2,3) len by simp
  show ?case
  proof (intro conjI allI impI)
    show "length h' = length h" using ih len by simp
  next
    fix a assume a: "a < length h"
    have step: "h' ! a = (h1 ! a)\<lparr>stock_quantity := stock_quantity (h1 ! a)
           - sum_list (map quantity
               (filter (\<lambda>it. map_of ps (product_id (h ! product it)) = Some a) its))\<rparr>"
      using ih a len by (simp add: ids)
    show "h' ! a = (h ! a)\<lparr>stock_quantity := stock_quantity (h ! a)
           - sum_list (map quantity
               (filter (\<lambda>it. map_of ps (product_id (h ! product it)) = Some a) (it # its)))\<rparr>"
    proof (cases "a = a0")
      case True
      then show ?thesis using step a0 a by (simp add: h1_def)
    next
      case False
      then show ?thesis using step a0 a by (simp add: h1_def)
    qed
  qed
qed

lemma decrement_stock_raises:
  assumes "\<forall>(k, a) \<in> set ps. a < length h"
  shows "fst (decrement_stock ps its h) = None \<longleftrightarrow>
     (\<forall>it \<in> set its. map_of ps (product_id (h ! product it)) \<noteq> None)"
  using assms
proof (induction its arbitrary: h)
  case Nil
  then show ?case by simp
next
  case (Cons it its)
  show ?case
  proof (cases "map_of ps (product_id (h ! product it))")
    case None
    then show ?thesis by simp
  next
    case (Some a0)
    define h1 where "h1 = h[a0 := (h ! a0)\<lparr>stock_quantity := stock_quantity (h ! a0) - quantity it\<rparr>]"
    have a0_lt: "a0 < length h"
      using Some Cons.prems by (auto dest: map_of_SomeD)
    have ids: "product_id (h1 ! r) = product_id (h ! r)" for r
      by (cases "r = a0") (simp_all add: h1_def a0_lt)
    have "fst (decrement_stock ps its h1) = None \<longleftrightarrow>
       (\<forall>it \<in> set its. map_of ps (product_id (h1 ! product it)) \<noteq> None)"
      using Cons.IH [of h1] Cons.prems by (simp add: h1_def)
    then show ?thesis using Some by (simp add: ids h1_def [symmetric])
  qed
qed

lemma filter_key_single:
  "distinct (map f xs) \<Longrightarrow> x \<in> set xs \<Longrightarrow> filter (\<lambda>y. f y = f x) xs = [x]"
proof (induction xs)
  case Nil
  then show ?case by simp
next
  case (Cons y ys)
  show ?case
  proof (cases "x = y")
    case True
    have "f y \<notin> f ` set ys" using Cons.prems(1) by simp
    then have "\<forall>z \<in> set ys. f z \<noteq> f y" by (metis imageI)
    then have "filter (\<lambda>z. f z = f y) ys = []" by (simp add: filter_empty_conv)
    then show ?thesis using True by simp
  next
    case False
    then have "x \<in> set ys" using Cons.prems(2) by simp
    moreover have "f y \<noteq> f x" using Cons.prems(1) \<open>x \<in> set ys\<close> by auto
    ultimately show ?thesis using Cons by simp
  qed
qed

lemma filter_key_none:
  "\<forall>y \<in> set xs. \<not> P y \<Longrightarrow> filter P xs = []"
  by (simp add: filter_empty_conv)

subsection \<open>Successful checkout\<close>

text \<open>
  Claim C1. The claim takes a cart with lines and a discount between 0 and the
  subtotal to be enough for \<^verbatim>\<open>checkout\<close> to succeed. It is not: \<^verbatim>\<open>delete_product\<close> does
  not look at the cart, and when a cart line's product id is no longer in the catalog
  the stock loop of \<^verbatim>\<open>checkout\<close> raises \<^verbatim>\<open>AttributeError\<close>, after the sale has been
  appended and saved and with the cart still full (shown on \<open>orphan_cart\<close> below).

  What holds is this. In a consistent state, if the cart has lines, the discount is at
  least 0 and at most the subtotal, and every cart line's product id is in the catalog,
  then \<^verbatim>\<open>checkout\<close> returns a sale: the sale holds the cart's lines, its subtotal is the
  sum of their totals, and it is the new last element of the sale history; for every
  cart line, the catalog product with the line's id has its stock reduced by exactly the
  line's quantity and is otherwise unchanged; catalog products that no line refers to
  are unchanged; and the cart is empty afterwards.
\<close>

theorem checkout_success:
  assumes "consistent s" and "cart s \<noteq> []"
    and "fle (Fin 0) d" and "fle d (fsum (map total (cart_items s)))"
    and "list_all (\<lambda>item. get_product s (product_id (heap s ! product item)) \<noteq> None)
           (cart_items s)"
  shows "(case checkout now ok_sales ok_data d s of (r, s') \<Rightarrow>
       r = Inr (Some \<lparr>items = cart s, total_amount = fsum (map total (cart_items s)),
                      datetime = now, discount = d,
                      final_amount = fsub (fsum (map total (cart_items s))) d\<rparr>)
     \<and> sales s' = sales s @ [\<lparr>items = cart s, total_amount = fsum (map total (cart_items s)),
                      datetime = now, discount = d,
                      final_amount = fsub (fsum (map total (cart_items s))) d\<rparr>]
     \<and> products s' = products s
     \<and> lines s' = lines s
     \<and> length (heap s') = length (heap s)
     \<and> (\<forall>item \<in> set (cart_items s). \<exists>a.
           get_product s (product_id (heap s ! product item)) = Some a
         \<and> heap s' ! a = (heap s ! a)\<lparr>stock_quantity := stock_quantity (heap s ! a) - quantity item\<rparr>)
     \<and> (\<forall>(k, a) \<in> set (products s).
           k \<notin> (\<lambda>item. product_id (heap s ! product item)) ` set (cart_items s)
           \<longrightarrow> heap s' ! a = heap s ! a)
     \<and> cart s' = [])"
proof -
  let ?t = "fsum (map total (cart_items s))"
  let ?pid = "\<lambda>item. product_id (heap s ! product item)"
  let ?sale = "\<lparr>items = cart s, total_amount = ?t, datetime = now, discount = d,
                final_amount = fsub ?t d\<rparr>"
  have guard: "\<not> flt d (Fin 0)" "\<not> flt ?t d"
    using assms(3,4) by (simp_all add: fle_not_flt)
  have ps: "\<forall>(k, a) \<in> set (products s). a < length (heap s) \<and> product_id (heap s ! a) = k"
    using assms(1) by (auto simp: consistent_def list_all_iff)
  then have ps': "\<forall>(k, a) \<in> set (products s). a < length (heap s)"
    by auto
  have refs: "\<forall>it \<in> set (cart_items s). product it < length (heap s)"
    using assms(1) by (auto simp: consistent_def list_all_iff)
  have dist: "distinct (map ?pid (cart_items s))"
    using assms(1) by (simp add: consistent_def)
  have present: "\<forall>it \<in> set (cart_items s). map_of (products s) (?pid it) \<noteq> None"
    using assms(5) by (simp add: list_all_iff get_product_def)
  obtain e h where run: "decrement_stock (products s) (cart_items s) (heap s) = (e, h)"
    by (cases "decrement_stock (products s) (cart_items s) (heap s)") auto
  have "fst (decrement_stock (products s) (cart_items s) (heap s)) = None"
    using decrement_stock_raises [OF ps', of "cart_items s"] present by simp
  with run have e: "e = None" by simp
  have result: "checkout now ok_sales ok_data d s =
      (Inr (Some ?sale),
       s\<lparr>heap := h, cart := [], sales := sales s @ [?sale],
         out := out s @ [WriteFile SalesFile ok_sales, WriteFile DataFile ok_data,
                         Print CheckoutCompleted]\<rparr>)"
    using assms(2) guard run e
    by (simp add: checkout_def say_def save_sales_def save_data_def Let_def cart_items_def)
  have eff: "length h = length (heap s) \<and>
     (\<forall>a < length (heap s). h ! a =
        (heap s ! a)\<lparr>stock_quantity := stock_quantity (heap s ! a)
           - sum_list (map quantity
               (filter (\<lambda>it. map_of (products s) (?pid it) = Some a) (cart_items s)))\<rparr>)"
    using decrement_stock_effect [of "products s" "cart_items s" "heap s" h] run e ps' refs
    by simp
  have lines: "\<exists>a. get_product s (?pid item) = Some a
         \<and> h ! a = (heap s ! a)\<lparr>stock_quantity := stock_quantity (heap s ! a) - quantity item\<rparr>"
    if item: "item \<in> set (cart_items s)" for item
  proof -
    from present item obtain a where a: "map_of (products s) (?pid item) = Some a" by auto
    then have mem: "(?pid item, a) \<in> set (products s)" by (rule map_of_SomeD)
    with ps have a_lt: "a < length (heap s)" and a_id: "product_id (heap s ! a) = ?pid item"
      by auto
    have same: "map_of (products s) (?pid it) = Some a \<longleftrightarrow> ?pid it = ?pid item" for it
    proof
      assume "map_of (products s) (?pid it) = Some a"
      then have "(?pid it, a) \<in> set (products s)" by (rule map_of_SomeD)
      with ps have "product_id (heap s ! a) = ?pid it" by auto
      with a_id show "?pid it = ?pid item" by simp
    next
      assume "?pid it = ?pid item"
      with a show "map_of (products s) (?pid it) = Some a" by simp
    qed
    have "filter (\<lambda>it. map_of (products s) (?pid it) = Some a) (cart_items s)
        = filter (\<lambda>it. ?pid it = ?pid item) (cart_items s)"
      by (rule filter_cong [OF refl]) (rule same)
    also have "\<dots> = [item]" using dist item by (rule filter_key_single)
    finally show ?thesis using eff a a_lt by (simp add: get_product_def)
  qed
  have others: "h ! a = heap s ! a"
    if mem: "(k, a) \<in> set (products s)" and k: "k \<notin> ?pid ` set (cart_items s)" for k a
  proof -
    from ps mem have a_lt: "a < length (heap s)" and a_id: "product_id (heap s ! a) = k"
      by auto
    have "\<forall>it \<in> set (cart_items s). \<not> map_of (products s) (?pid it) = Some a"
    proof
      fix it assume it: "it \<in> set (cart_items s)"
      show "\<not> map_of (products s) (?pid it) = Some a"
      proof
        assume "map_of (products s) (?pid it) = Some a"
        then have "(?pid it, a) \<in> set (products s)" by (rule map_of_SomeD)
        with ps have "product_id (heap s ! a) = ?pid it" by auto
        with a_id k it show False by auto
      qed
    qed
    then have "filter (\<lambda>it. map_of (products s) (?pid it) = Some a) (cart_items s) = []"
      by (rule filter_key_none)
    with eff a_lt show ?thesis by simp
  qed
  show ?thesis
    unfolding result using lines others eff by auto
qed

theorem checkout_success_witness:
  "consistent widget_cart \<and> cart widget_cart \<noteq> []
   \<and> fle (Fin 0) (Fin 0) \<and> fle (Fin 0) (fsum (map total (cart_items widget_cart)))
   \<and> list_all (\<lambda>item. get_product widget_cart (product_id (heap widget_cart ! product item)) \<noteq> None)
       (cart_items widget_cart)
   \<and> fst (checkout 0 True True (Fin 0) widget_cart) = Inr (Some widget_sale)
   \<and> sales (snd (checkout 0 True True (Fin 0) widget_cart)) = [widget_sale]
   \<and> get_product widget_cart (ascii ''P1'') = Some 0
   \<and> stock_quantity (heap widget_cart ! 0) = 10
   \<and> quantity (lines widget_cart ! 0) = 3
   \<and> stock_quantity (heap (snd (checkout 0 True True (Fin 0) widget_cart)) ! 0) = 7
   \<and> cart (snd (checkout 0 True True (Fin 0) widget_cart)) = []"
proof -
  have c: "consistent widget_cart"
    by (simp add: consistent_def cart_items_def widget_cart_eq widget_shop_eq)
  have ne: "cart widget_cart \<noteq> []"
    by (simp add: widget_cart_eq)
  have d0: "fle (Fin 0) (Fin 0)"
    by simp
  have d1: "fle (Fin 0) (fsum (map total (cart_items widget_cart)))"
    by (simp add: cart_items_def widget_cart_eq widget_shop_eq float_eval)
  have la: "list_all (\<lambda>item. get_product widget_cart (product_id (heap widget_cart ! product item)) \<noteq> None)
       (cart_items widget_cart)"
    by (simp add: cart_items_def widget_cart_eq widget_shop_eq get_product_def)
  from checkout_success [OF c ne d0 d1 la, of 0 True True] show ?thesis
    using c ne d1 la
    by (simp add: split_beta cart_items_def widget_cart_eq widget_shop_eq widget_sale_def
          get_product_def float_eval)
qed

text \<open>
  The state \<open>orphan_cart\<close> is reached by \<^verbatim>\<open>add_product\<close>, \<^verbatim>\<open>add_to_cart\<close> and
  \<^verbatim>\<open>delete_product\<close>. It is consistent, its cart has a line and the discount 0 lies
  between 0 and the subtotal, yet \<^verbatim>\<open>checkout\<close> raises: no sale is returned, the cart is
  not emptied, and the sale is in the history and the sales file was written all the
  same.
\<close>

theorem checkout_deleted_product:
  "consistent orphan_cart \<and> cart orphan_cart \<noteq> []
   \<and> fle (Fin 0) (Fin 0) \<and> fle (Fin 0) (fsum (map total (cart_items orphan_cart)))
   \<and> checkout 0 True True (Fin 0) orphan_cart
       = (Inl AttributeError,
          orphan_cart\<lparr>sales := [widget_sale],
            out := out orphan_cart @ [WriteFile SalesFile True]\<rparr>)
   \<and> cart orphan_cart = [0]"
  by (simp add: consistent_def cart_items_def orphan_cart_eq widget_cart_eq widget_shop_eq
        widget_sale_def checkout_def save_sales_def Let_def float_eval)

subsection \<open>Adding an unknown product to the cart\<close>

text \<open>
  Claim C9. \<^verbatim>\<open>add_to_cart\<close> with a product id that is not in the catalog returns
  \<^verbatim>\<open>False\<close>, whatever the cart and the quantity are. The only effect is the printed
  line "could not find that product", a failure that is none of the cart's error kinds
  \<open>InvalidQuantity\<close> and \<open>InsufficientStock\<close>; the cart, its lines, the catalog, the store
  and the sale history stay as they were.
\<close>

theorem add_to_cart_unknown_product:
  "get_product s pid = None \<Longrightarrow>
     add_to_cart pid q s = (Inr False, s\<lparr>out := out s @ [Print CouldNotFindProduct]\<rparr>)"
  by (simp add: add_to_cart_def say_def)

theorem add_to_cart_unknown_product_witness:
  "get_product init (ascii ''P9'') = None \<and>
   add_to_cart (ascii ''P9'') 2 init
     = (Inr False, init\<lparr>out := out init @ [Print CouldNotFindProduct]\<rparr>)"
  using add_to_cart_unknown_product [of init "ascii ''P9''" 2]
  by (simp add: get_product_def init_def)

subsection \<open>Adding to the cart beyond the stock\<close>

text \<open>
  Claim C2. The claim is that \<^verbatim>\<open>add_to_cart\<close> succeeds only if the stock covers the
  quantity already in the product's cart line plus the quantity asked for, so that a
  line never holds more than the stock. The code compares the stock with the quantity
  of the call alone. In the shop with ten widgets, adding six and then six again
  succeeds both times and leaves a line of twelve.
\<close>

theorem add_to_cart_exceeds_stock:
  "add_to_cart (ascii ''P1'') 6 (snd (add_to_cart (ascii ''P1'') 6 widget_shop))
     = (Inr True,
        widget_shop\<lparr>lines := [\<lparr>product = 0, quantity = 12, total = Fin (11988 / 100)\<rparr>],
          cart := [0],
          out := out widget_shop @ [Print AddedToCart, Print UpdatedQuantity]\<rparr>)
   \<and> stock_quantity (heap widget_shop ! 0) = 10"
  by (simp add: widget_shop_eq add_to_cart_def get_product_def say_def float_eval)

subsection \<open>Stock below zero\<close>

text \<open>
  Claim C3. The claim is that no sequence of the public operations makes a stock
  quantity negative. After the two additions of six widgets to the cart, \<^verbatim>\<open>checkout\<close>
  returns a sale and leaves the stock of \<open>P1\<close> at minus two.
\<close>

theorem checkout_negative_stock:
  "(case checkout 0 True True (Fin 0)
           (snd (add_to_cart (ascii ''P1'') 6 (snd (add_to_cart (ascii ''P1'') 6 widget_shop)))) of
      (r, s') \<Rightarrow>
        (\<exists>sale. r = Inr (Some sale))
      \<and> map (\<lambda>(k, a). (k, stock_quantity (heap s' ! a))) (products s') = [(ascii ''P1'', - 2)])"
  by (simp add: widget_shop_eq add_to_cart_def get_product_def say_def checkout_def
        cart_items_def save_sales_def save_data_def Let_def float_eval)

subsection \<open>Rejected checkout\<close>

text \<open>
  Claim C4. \<^verbatim>\<open>checkout\<close> on an empty cart returns \<^verbatim>\<open>None\<close> and prints "Cart is empty!";
  \<^verbatim>\<open>checkout\<close> on a cart with lines and a discount below zero or above the subtotal
  returns \<^verbatim>\<open>None\<close> and prints "Invalid discount amount!". In both cases the printed line
  is the only change of the state: no sale is appended, store, catalog, cart and cart
  lines are as before, and no file is written.
\<close>

theorem checkout_rejected:
  "(cart s = [] \<longrightarrow>
      checkout now ok_sales ok_data d s = (Inr None, s\<lparr>out := out s @ [Print CartIsEmpty]\<rparr>))
   \<and> (cart s \<noteq> [] \<and> (flt d (Fin 0) \<or> flt (fsum (map total (cart_items s))) d) \<longrightarrow>
      checkout now ok_sales ok_data d s =
        (Inr None, s\<lparr>out := out s @ [Print InvalidDiscountAmount]\<rparr>))"
  by (simp add: checkout_def say_def Let_def)

theorem checkout_rejected_witness:
  "cart widget_shop = []
   \<and> checkout 0 True True (Fin 0) widget_shop
       = (Inr None, widget_shop\<lparr>out := out widget_shop @ [Print CartIsEmpty]\<rparr>)
   \<and> cart widget_cart \<noteq> [] \<and> flt (fsum (map total (cart_items widget_cart))) (Fin 30)
   \<and> checkout 0 True True (Fin 30) widget_cart
       = (Inr None, widget_cart\<lparr>out := out widget_cart @ [Print InvalidDiscountAmount]\<rparr>)"
  using checkout_rejected [of widget_shop 0 True True "Fin 0"]
    checkout_rejected [of widget_cart 0 True True "Fin 30"]
  by (simp add: cart_items_def widget_cart_eq widget_shop_eq float_eval)

subsection \<open>Rejected update\<close>

text \<open>
  Claim C5. The claim is that an update rejected for its price or its stock quantity
  leaves the product record entirely unchanged, a name supplied in the same call
  included. \<^verbatim>\<open>update_product\<close> assigns the name before it looks at the price: updating
  \<open>P1\<close> with the name "Gadget" and the price 0 returns \<^verbatim>\<open>False\<close> and leaves the product
  named "Gadget".
\<close>

theorem update_product_partial_mutation:
  "update_product True (ascii ''P1'') (Some (ascii ''Gadget'')) (Some (Fin 0)) None widget_shop
     = (False,
        widget_shop\<lparr>heap := [\<lparr>product_id = ascii ''P1'', name = ascii ''Gadget'',
                                 price = Fin (999 / 100), stock_quantity = 10\<rparr>],
          out := out widget_shop @ [Print PriceMustBePositive]\<rparr>)
   \<and> name (heap widget_shop ! 0) = ascii ''Widget''"
  by (simp add: widget_shop_eq update_product_def set_name_def say_def)

subsection \<open>Adding a product and reading it back\<close>

text \<open>
  Claim C7. For an id that is not in the catalog, a price above zero and a stock
  quantity of at least zero, \<^verbatim>\<open>get_product\<close> after \<^verbatim>\<open>add_product\<close> returns a product whose
  id, name, price and stock quantity are the values given to \<^verbatim>\<open>add_product\<close>. This holds
  whether or not writing the file succeeds (when it fails, \<^verbatim>\<open>add_product\<close> returns
  \<^verbatim>\<open>False\<close> with the product in memory all the same).
\<close>

theorem add_then_get:
  assumes "get_product s pid = None" and "flt (Fin 0) pr" and "0 \<le> qty"
  shows "\<exists>a. get_product (snd (add_product ok pid nm pr qty s)) pid = Some a
           \<and> heap (snd (add_product ok pid nm pr qty s)) ! a
               = \<lparr>product_id = pid, name = nm, price = pr, stock_quantity = qty\<rparr>
           \<and> fst (add_product ok pid nm pr qty s) = ok"
  using assms flt_not_fle [of "Fin 0" pr]
  by (simp add: add_product_def get_product_def save_data_def say_def Let_def AList.update_conv')

theorem add_then_get_witness:
  "get_product init (ascii ''P1'') = None \<and> flt (Fin 0) (Fin (999 / 100)) \<and> (0 :: int) \<le> 10
   \<and> (\<exists>a. get_product widget_shop (ascii ''P1'') = Some a
         \<and> heap widget_shop ! a
             = \<lparr>product_id = ascii ''P1'', name = ascii ''Widget'', price = Fin (999 / 100),
                 stock_quantity = 10\<rparr>)"
proof -
  have h: "get_product init (ascii ''P1'') = None" by (simp add: get_product_def init_def)
  have p: "flt (Fin 0) (Fin (999 / 100))" by simp
  from add_then_get [OF h p, of 10 True "ascii ''Widget''"] show ?thesis
    using h by (auto simp: widget_shop_def)
qed

subsection \<open>Discounts\<close>






subsection \<open>Reducing a cart line\<close>

text \<open>
  Claim C10. \<^verbatim>\<open>remove_from_cart\<close> does not check that a supplied quantity is positive,
  and for a line of quantity \<open>n\<close> and a quantity \<open>q < n\<close> the claim has it report success
  with the line at quantity \<open>n - q\<close> and total \<open>price * (n - q)\<close>. That fails when \<open>n - q\<close> is
  too large for a float: \<^verbatim>\<open>item.quantity -= quantity\<close> is done, then the product
  \<^verbatim>\<open>item.product.price * item.quantity\<close> raises \<^verbatim>\<open>OverflowError\<close>, so nothing is
  reported and the line keeps its old total (shown on \<open>widget_cart\<close> below).

  What holds is this. In a consistent state, when the cart's line for the product has
  quantity \<open>n\<close>, the call gives a quantity \<open>q < n\<close>, and \<open>n - q\<close> is below \<open>2^1024 - 2^970\<close>
  in magnitude, the call returns \<^verbatim>\<open>True\<close>, prints "Reduced item quantity in cart." and
  leaves that line with quantity \<open>n - q\<close> and total \<open>price * (n - q)\<close>, everything else as
  it was. So \<open>q = 0\<close> keeps the quantity and \<open>q < 0\<close> makes it larger.
\<close>

theorem remove_from_cart_reduces:
  assumes "consistent s" and "i < length (cart s)"
    and "product_id (heap s ! product (lines s ! (cart s ! i))) = pid"
    and "q < quantity (lines s ! (cart s ! i))"
    and "\<bar>of_int (quantity (lines s ! (cart s ! i)) - q)\<bar> < float_overflow"
  shows "remove_from_cart pid (Some q) s
     = (Inr True,
        say ReducedItem
          (s\<lparr>lines := (lines s)[cart s ! i := (lines s ! (cart s ! i))
                \<lparr>quantity := quantity (lines s ! (cart s ! i)) - q,
                 total := fmul (price (heap s ! product (lines s ! (cart s ! i))))
                            (Fin (of_int (quantity (lines s ! (cart s ! i)) - q)))\<rparr>]\<rparr>))
     \<and> quantity (lines (snd (remove_from_cart pid (Some q) s)) ! (cart s ! i))
         = quantity (lines s ! (cart s ! i)) - q
     \<and> total (lines (snd (remove_from_cart pid (Some q) s)) ! (cart s ! i))
         = fmul (price (heap s ! product (lines s ! (cart s ! i))))
             (Fin (of_int (quantity (lines s ! (cart s ! i)) - q)))
     \<and> cart (snd (remove_from_cart pid (Some q) s)) = cart s
     \<and> (q \<le> 0 \<longrightarrow> quantity (lines s ! (cart s ! i))
                     \<le> quantity (lines (snd (remove_from_cart pid (Some q) s)) ! (cart s ! i)))
     \<and> (q < 0 \<longrightarrow> quantity (lines s ! (cart s ! i))
                     < quantity (lines (snd (remove_from_cart pid (Some q) s)) ! (cart s ! i)))"
proof -
  have dist: "distinct (map (\<lambda>r. product_id (heap s ! product (lines s ! r))) (cart s))"
    using assms(1) by (simp add: consistent_def cart_items_def comp_def)
  have found: "find_line (heap s) (lines s) pid (cart s) = Some i"
    using dist assms(2,3) by (rule find_line_unique)
  have r: "cart s ! i < length (lines s)"
    using assms(1,2) by (simp add: consistent_def list_all_length)
  have conv: "to_float (quantity (lines s ! (cart s ! i)) - q)
      = Inr (Fin (of_int (quantity (lines s ! (cart s ! i)) - q)))"
    using assms(5) by (rule to_float_in_range)
  have result: "remove_from_cart pid (Some q) s
     = (Inr True,
        say ReducedItem
          (s\<lparr>lines := (lines s)[cart s ! i := (lines s ! (cart s ! i))
                \<lparr>quantity := quantity (lines s ! (cart s ! i)) - q,
                 total := fmul (price (heap s ! product (lines s ! (cart s ! i))))
                            (Fin (of_int (quantity (lines s ! (cart s ! i)) - q)))\<rparr>]\<rparr>))"
    using found assms(4) conv
    by (simp add: remove_from_cart_def mul_float_int_def Let_def)
  show ?thesis
    unfolding result using r by (simp add: say_def)
qed

theorem remove_from_cart_reduces_witness:
  "consistent widget_cart \<and> (0 :: nat) < length (cart widget_cart)
   \<and> product_id (heap widget_cart ! product (lines widget_cart ! (cart widget_cart ! 0)))
       = ascii ''P1''
   \<and> quantity (lines widget_cart ! (cart widget_cart ! 0)) = 3
   \<and> (- 2 :: int) < 3
   \<and> \<bar>of_int (3 - (- 2))\<bar> < float_overflow
   \<and> remove_from_cart (ascii ''P1'') (Some (- 2)) widget_cart
       = (Inr True, say ReducedItem
            (widget_cart\<lparr>lines := [\<lparr>product = 0, quantity = 5, total = Fin (4995 / 100)\<rparr>]\<rparr>))"
proof -
  have c: "consistent widget_cart"
    by (simp add: consistent_def cart_items_def widget_cart_eq widget_shop_eq)
  show ?thesis
    using c remove_from_cart_reduces [of widget_cart 0 "ascii ''P1''" "- 2"]
    by (simp add: widget_cart_eq widget_shop_eq float_eval)
qed

text \<open>
  On the cart with three widgets, \<^verbatim>\<open>remove_from_cart\<close> with the quantity \<open>- 10^400\<close>, which
  is below 3, raises \<^verbatim>\<open>OverflowError\<close>: no success is reported, and the line is left
  with the quantity \<open>3 + 10^400\<close> and its old total 29.97.
\<close>

theorem remove_from_cart_overflow:
  "cart widget_cart = [0]
   \<and> product_id (heap widget_cart ! product (lines widget_cart ! 0)) = ascii ''P1''
   \<and> lines widget_cart = [\<lparr>product = 0, quantity = 3, total = Fin (2997 / 100)\<rparr>]
   \<and> - (10 ^ 400) < (3 :: int)
   \<and> remove_from_cart (ascii ''P1'') (Some (- (10 ^ 400))) widget_cart
       = (Inl OverflowError,
          widget_cart\<lparr>lines := [\<lparr>product = 0, quantity = 3 + 10 ^ 400,
                                   total = Fin (2997 / 100)\<rparr>]\<rparr>)"
  by (simp add: remove_from_cart_def widget_cart_eq widget_shop_eq Let_def float_eval)

subsection \<open>Searching the catalog\<close>











end
